theory Spec2Isabelle
  imports Main "HOL-Library.AList"
begin

section \<open>JavaScript values\<close>

text \<open>
  The client (\<^verbatim>\<open>class JRPCClient\<close>) handles untyped JavaScript values: method names,
  parameters, options, results, errors, handlers and prepared calls.  A number is
  modelled by an integer (the code only tests a number for being zero, compares the
  timeout with 1000 and divides it by 1000), with \<open>JNaN\<close> apart.  An object is the
  list of its own properties, in insertion order.  A function is known by its identity
  only.  \<open>JLazyPromise o i\<close> is the \<^verbatim>\<open>LazyPromise\<close> instance that the \<open>i\<close>-th
  \<^verbatim>\<open>prepare\<close> of the client instance \<open>o\<close> returned.
\<close>

datatype js_error = TypeError string | Error string

datatype jsval =
    JUndefined
  | JNull
  | JBool bool
  | JNum int
  | JNaN
  | JStr string
  | JArr "jsval list"
  | JObj "(string \<times> jsval) list"
  | JFunc nat
  | JErr js_error
  | JLazyPromise nat nat

text \<open>JavaScript's truthiness: \<^verbatim>\<open>undefined\<close>, \<^verbatim>\<open>null\<close>, \<^verbatim>\<open>false\<close>, \<^verbatim>\<open>0\<close>,
  \<^verbatim>\<open>NaN\<close> and \<^verbatim>\<open>''\<close> are falsy, every other value is truthy.\<close>

fun truthy :: "jsval \<Rightarrow> bool" where
  "truthy JUndefined = False"
| "truthy JNull = False"
| "truthy (JBool b) = b"
| "truthy (JNum n) = (n \<noteq> 0)"
| "truthy JNaN = False"
| "truthy (JStr s) = (s \<noteq> [])"
| "truthy (JArr xs) = True"
| "truthy (JObj kvs) = True"
| "truthy (JFunc f) = True"
| "truthy (JErr e) = True"
| "truthy (JLazyPromise ow i) = True"

text \<open>\<^verbatim>\<open>a || b\<close>\<close>

definition js_or :: "jsval \<Rightarrow> jsval \<Rightarrow> jsval" where
  "js_or a b = (if truthy a then a else b)"

text \<open>A destructuring default (\<^verbatim>\<open>{ x = d }\<close>) applies when the property is \<^verbatim>\<open>undefined\<close>.\<close>

definition js_default :: "jsval \<Rightarrow> jsval \<Rightarrow> jsval" where
  "js_default v d = (if v = JUndefined then d else v)"

text \<open>Reading a property of an object: \<^verbatim>\<open>undefined\<close> when the object has none of
  that name (the objects read here are object literals and arrays of them).\<close>

definition field :: "string \<Rightarrow> jsval \<Rightarrow> jsval" where
  "field k v = (case v of
      JObj kvs \<Rightarrow> (case map_of kvs k of Some x \<Rightarrow> x | None \<Rightarrow> JUndefined)
    | _ \<Rightarrow> JUndefined)"

subsection \<open>The predicates of \<^verbatim>\<open>check-types\<close> that the client uses\<close>

definition check_nonEmptyString :: "jsval \<Rightarrow> bool" where
  "check_nonEmptyString v = (case v of JStr s \<Rightarrow> s \<noteq> [] | _ \<Rightarrow> False)"



definition check_function :: "jsval \<Rightarrow> bool" where
  "check_function v = (case v of JFunc f \<Rightarrow> True | _ \<Rightarrow> False)"

definition check_array :: "jsval \<Rightarrow> bool" where
  "check_array v = (case v of JArr xs \<Rightarrow> True | _ \<Rightarrow> False)"

definition check_emptyArray :: "jsval \<Rightarrow> bool" where
  "check_emptyArray v = (case v of JArr xs \<Rightarrow> xs = [] | _ \<Rightarrow> False)"

text \<open>\<^verbatim>\<open>check.object\<close> holds of the values whose class string is
  \<^verbatim>\<open>[object Object]\<close>: of the values modelled here, the plain objects.  (Were a
  \<^verbatim>\<open>LazyPromise\<close> instance to pass it too, \<^verbatim>\<open>batch\<close> would reject it two lines
  later, its own properties \<^verbatim>\<open>then\<close> and \<^verbatim>\<open>done\<close> being functions: the same
  rejection as in the model.)\<close>

definition check_object :: "jsval \<Rightarrow> bool" where
  "check_object v = (case v of JObj kvs \<Rightarrow> True | _ \<Rightarrow> False)"

definition check_emptyObject :: "jsval \<Rightarrow> bool" where
  "check_emptyObject v = (case v of JObj kvs \<Rightarrow> kvs = [] | _ \<Rightarrow> False)"

text \<open>\<^verbatim>\<open>check.instanceStrict(v, LazyPromise)\<close>: \<^verbatim>\<open>v instanceof LazyPromise\<close>.\<close>

definition instanceStrict_LazyPromise :: "jsval \<Rightarrow> bool" where
  "instanceStrict_LazyPromise v = (case v of JLazyPromise ow i \<Rightarrow> True | _ \<Rightarrow> False)"

definition array_of_instanceStrict_LazyPromise :: "jsval \<Rightarrow> bool" where
  "array_of_instanceStrict_LazyPromise v =
     (case v of JArr xs \<Rightarrow> list_all instanceStrict_LazyPromise xs | _ \<Rightarrow> False)"

definition object_of_instanceStrict_LazyPromise :: "jsval \<Rightarrow> bool" where
  "object_of_instanceStrict_LazyPromise v =
     (case v of JObj kvs \<Rightarrow> list_all (\<lambda>kv. instanceStrict_LazyPromise (snd kv)) kvs
      | _ \<Rightarrow> False)"

subsection \<open>Messages of the errors the client raises\<close>

definition msg_method :: string where
  "msg_method = ''missing/invalid \"method\" parameter''"

definition msg_requests :: string where
  "msg_requests = ''missing/invalid \"requests\" parameter''"

definition msg_not_connected :: string where
  "msg_not_connected = ''Transport not connected''"




section \<open>Promises\<close>

text \<open>A promise is pending or settled, and the first settlement stands: \<^verbatim>\<open>resolve\<close>
  and \<^verbatim>\<open>reject\<close> of a settled promise do nothing.\<close>

datatype pstate = Pending | Resolved jsval | Rejected jsval

definition resolve :: "jsval \<Rightarrow> pstate \<Rightarrow> pstate" where
  "resolve v p = (case p of Pending \<Rightarrow> Resolved v | _ \<Rightarrow> p)"

definition reject :: "jsval \<Rightarrow> pstate \<Rightarrow> pstate" where
  "reject e p = (case p of Pending \<Rightarrow> Rejected e | _ \<Rightarrow> p)"

text \<open>
  The client creates promises at three places, and the model names a promise after
  the place and the time of its creation: \<open>CallP n\<close> is the promise that the
  \<open>n\<close>-th \<^verbatim>\<open>call\<close> returned, \<open>LazyP i\<close> the promise behind the \<open>i\<close>-th prepared
  call (created by its first \<^verbatim>\<open>then\<close>), \<open>BatchP k\<close> the promise that the
  \<open>k\<close>-th \<^verbatim>\<open>batch\<close> returned.
\<close>

datatype pref = CallP nat | LazyP nat | BatchP nat

text \<open>The response object that \<^verbatim>\<open>call\<close> (with \<^verbatim>\<open>rejectOnError\<close> false) and
  \<^verbatim>\<open>prepare\<close> resolve to:
  \<^verbatim>\<open>{ error: (err || null), result: (result || null) }\<close>.\<close>

definition response :: "jsval \<Rightarrow> jsval \<Rightarrow> jsval" where
  "response err result =
     JObj [(''error'', js_or err JNull), (''result'', js_or result JNull)]"

text \<open>Exactly one of the two fields of a response is not \<^verbatim>\<open>null\<close>.\<close>

definition one_non_null :: "jsval \<Rightarrow> bool" where
  "one_non_null r = ((field ''error'' r \<noteq> JNull) \<noteq> (field ''result'' r \<noteq> JNull))"

section \<open>The transport and the RPC engine\<close>

text \<open>
  The transport is the caller's object; the client reads \<^verbatim>\<open>needsConnection\<close> and
  \<^verbatim>\<open>isConnected\<close> and calls \<^verbatim>\<open>connect\<close>, \<^verbatim>\<open>disconnect\<close> and \<^verbatim>\<open>send\<close>,
  each of which returns a promise.  The model takes the transport as a record of
  functions over the transport's own state \<open>'ts\<close>; a method returns the state its
  promise ends in (\<open>Pending\<close>: it never settles) and the transport's new state.
  What \<^verbatim>\<open>checkTransport\<close> tests at run time (the properties exist and have these
  types) is the type of this record.  The message passed to \<^verbatim>\<open>send\<close> is the list
  of the requests it encodes: correlation id, method and parameters.
\<close>

type_synonym wire = "(nat \<times> jsval \<times> jsval) list"

record 'ts transport_ops =
  t_needsConnection :: bool
  t_isConnected :: "'ts \<Rightarrow> bool"
  t_connect :: "'ts \<Rightarrow> pstate \<times> 'ts"
  t_disconnect :: "'ts \<Rightarrow> pstate \<times> 'ts"
  t_send :: "wire \<Rightarrow> 'ts \<Rightarrow> pstate \<times> 'ts"

text \<open>
  The transports of the repository's tests (\<^verbatim>\<open>src/__tests__/connected-transport.js\<close>,
  which also holds \<^verbatim>\<open>fake-transport.js\<close>).

  \<^verbatim>\<open>FakeTransport\<close> is connectionless: \<^verbatim>\<open>needsConnection\<close> is false and it has
  no \<^verbatim>\<open>isConnected\<close>, \<^verbatim>\<open>connect\<close> or \<^verbatim>\<open>disconnect\<close> (the client reads and
  calls none of them on such a transport; the record holds \<^verbatim>\<open>undefined\<close> read as a
  boolean, and promises resolved at once).  \<^verbatim>\<open>send\<close> runs \<^verbatim>\<open>fakeResponse\<close> on
  every request of the message, in order: a request for the method
  \<^verbatim>\<open>transport-error\<close> throws, and \<^verbatim>\<open>send\<close> returns a promise rejected with the
  error thrown; otherwise \<^verbatim>\<open>send\<close> returns a resolved promise.  (The responses
  that \<^verbatim>\<open>fakeResponse\<close> schedules with \<^verbatim>\<open>setImmediate\<close>, for the methods
  \<^verbatim>\<open>base64\<close> and \<^verbatim>\<open>rpc-error\<close>, reach the engine later, as inbound data.)
\<close>

definition fakeResponse :: "nat \<times> jsval \<times> jsval \<Rightarrow> js_error option" where
  "fakeResponse request =
     (if fst (snd request) = JStr ''transport-error''
      then Some (Error ''Generic transport error'') else None)"

fun FakeTransport_send :: "wire \<Rightarrow> pstate" where
  "FakeTransport_send [] = Resolved JUndefined"
| "FakeTransport_send (request # data) =
     (case fakeResponse request of
        Some err \<Rightarrow> Rejected (JErr err)
      | None \<Rightarrow> FakeTransport_send data)"


text \<open>\<^verbatim>\<open>ConnectedTransport extends FakeTransport\<close>: its state is the flag
  \<^verbatim>\<open>_connected\<close>, which \<^verbatim>\<open>connect\<close> and \<^verbatim>\<open>disconnect\<close> set before they
  return their promise.\<close>

definition ConnectedTransport :: "bool transport_ops" where
  "ConnectedTransport =
     \<lparr> t_needsConnection = True,
       t_isConnected = (\<lambda>c. c),
       t_connect = (\<lambda>c. (Resolved JUndefined, True)),
       t_disconnect = (\<lambda>c. (Resolved JUndefined, False)),
       t_send = (\<lambda>d c. if \<not> c then (Rejected (JErr (Error ''Transport not connected'')), c)
                        else (FakeTransport_send d, c)) \<rparr>"

text \<open>A closure that the client hands to the engine as the completion callback of a
  call.  \<open>CallCallback n rejectOnError\<close> is the one written in \<^verbatim>\<open>call\<close>: it closes
  over \<^verbatim>\<open>resolve\<close> and \<^verbatim>\<open>reject\<close> of the promise \<open>CallP n\<close> and over
  \<^verbatim>\<open>rejectOnError\<close>.  \<open>PrepareCallback i\<close> is the one written in \<^verbatim>\<open>prepare\<close>:
  it closes over \<^verbatim>\<open>resolve\<close> of the promise \<open>LazyP i\<close>.\<close>

datatype callback = CallCallback nat bool | PrepareCallback nat

text \<open>
  Modelled from the spec: the RPC engine is the external package \<^verbatim>\<open>jrpc\<close>, of which
  the sources hold the calls only.  From the spec's contract: it is constructed with a
  timeout in seconds; \<^verbatim>\<open>call(method, params, callback)\<close> registers one pending call
  under a fresh correlation id; \<^verbatim>\<open>transmit(sendFn)\<close> flushes all pending calls not
  yet sent into one message through \<^verbatim>\<open>sendFn\<close>; the callback of a call fires once,
  with \<^verbatim>\<open>(err, result)\<close>; notification handlers are registered by name in
  \<^verbatim>\<open>exposed\<close>, which the client also reads and deletes from.
\<close>

record pending_call =
  pc_id :: nat
  pc_method :: jsval
  pc_params :: jsval
  pc_callback :: callback
  pc_sent :: bool

record engine =
  remoteTimeout :: int
  serial :: nat
  outbox :: "pending_call list"
  exposed :: "(string \<times> jsval) list"

definition new_JRPC :: "int \<Rightarrow> engine" where
  "new_JRPC seconds = \<lparr> remoteTimeout = seconds, serial = 0, outbox = [], exposed = [] \<rparr>"

section \<open>The client\<close>

text \<open>
  What the client did, in order: the transport methods it called and the calls it
  registered with the engine.  \<open>invoked\<close> lists the calls of notification handlers:
  the handler and its argument.
\<close>

datatype op = Connect | Disconnect | Register nat jsval jsval | Send wire

text \<open>A prepared call: the \<^verbatim>\<open>LazyPromise\<close> that \<^verbatim>\<open>prepare\<close> returned holds its
  executor (a closure over \<^verbatim>\<open>method\<close> and \<^verbatim>\<open>params\<close>) and whether it has been
  started.\<close>

record lazy =
  lz_method :: jsval
  lz_params :: jsval
  lz_started :: bool

text \<open>A running \<^verbatim>\<open>batch\<close>: its number \<open>k\<close> (its promise is \<open>BatchP k\<close>), and
  the collection that \<^verbatim>\<open>Promise.all\<close> (an array) or \<^verbatim>\<open>pProps\<close> (an object)
  aggregates.\<close>

record aggregate =
  ag_promise :: nat
  ag_array :: bool
  ag_requests :: jsval

text \<open>
  What the client has left with the event loop, to run in a later turn:

  \<^item> \<open>ThenMakeCall r n method params rejectOnError\<close>: the reactions
    \<^verbatim>\<open>.then(makeCall).catch(reject)\<close> that the \<open>n\<close>-th \<^verbatim>\<open>call\<close> put on the promise
    of \<^verbatim>\<open>connect()\<close>, a promise that ends in the state \<open>r\<close>;
  \<^item> \<open>ThenMakeCalls r k array requests\<close>: the reactions
    \<^verbatim>\<open>.then(makeCalls).catch(reject)\<close> of the \<open>k\<close>-th \<^verbatim>\<open>batch\<close>, likewise;
  \<^item> \<open>PromiseAll k array requests\<close>: the jobs in which \<^verbatim>\<open>Promise.all\<close> (or
    \<^verbatim>\<open>pProps\<close>) of the \<open>k\<close>-th \<^verbatim>\<open>batch\<close> calls \<^verbatim>\<open>then\<close> on the elements of
    \<^verbatim>\<open>requests\<close>, one after the other;
  \<^item> \<open>SetImmediate k\<close>: the \<^verbatim>\<open>remote.transmit\<close> that the \<open>k\<close>-th \<^verbatim>\<open>batch\<close>
    scheduled with \<^verbatim>\<open>setImmediate\<close>.
\<close>

datatype task =
    ThenMakeCall pstate nat jsval jsval bool
  | ThenMakeCalls pstate nat bool jsval
  | PromiseAll nat bool jsval
  | SetImmediate nat

record 'ts session =
  sid :: nat
  transport :: 'ts
  remote :: engine
  autoConnect :: bool
  batchRequests :: bool
  promises :: "pref \<Rightarrow> pstate"
  next_call :: nat
  next_batch :: nat
  lazies :: "lazy list"
  batches :: "aggregate list"
  trace :: "op list"
  invoked :: "(jsval \<times> jsval) list"
  tasks :: "task list"

subsection \<open>The constructor\<close>



text \<open>The private data of a new instance (\<^verbatim>\<open>_data.set(this, ...)\<close>), with no
  promise, prepared call or batch yet.\<close>

definition initial_session :: "nat \<Rightarrow> 'ts \<Rightarrow> int \<Rightarrow> bool \<Rightarrow> bool \<Rightarrow> 'ts session" where
  "initial_session i ts seconds ac br =
     \<lparr> sid = i, transport = ts, remote = new_JRPC seconds,
       autoConnect = ac, batchRequests = br,
       promises = (\<lambda>p. Pending), next_call = 0, next_batch = 0,
       lazies = [], batches = [], trace = [], invoked = [],
       tasks = [] \<rparr>"


subsection \<open>Connection\<close>

text \<open>\<^verbatim>\<open>get needsConnection\<close> and \<^verbatim>\<open>get isConnected\<close>.\<close>

definition needsConnection :: "'ts transport_ops \<Rightarrow> 'ts session \<Rightarrow> bool" where
  "needsConnection T s = t_needsConnection T"

definition isConnected :: "'ts transport_ops \<Rightarrow> 'ts session \<Rightarrow> bool" where
  "isConnected T s = (\<not> t_needsConnection T \<or> t_isConnected T (transport s))"

text \<open>\<^verbatim>\<open>async connect()\<close> and \<^verbatim>\<open>async disconnect()\<close>: the state of the returned
  promise and the session after the call.  An \<^verbatim>\<open>async\<close> function whose body ends
  without \<^verbatim>\<open>return\<close> resolves to \<^verbatim>\<open>undefined\<close>; \<^verbatim>\<open>return await p\<close> settles
  as \<^verbatim>\<open>p\<close> does.\<close>

definition connect :: "'ts transport_ops \<Rightarrow> 'ts session \<Rightarrow> pstate \<times> 'ts session" where
  "connect T s =
     (if t_needsConnection T \<and> \<not> t_isConnected T (transport s)
      then (case t_connect T (transport s) of
              (r, ts) \<Rightarrow> (r, s\<lparr>transport := ts, trace := trace s @ [Connect]\<rparr>))
      else (Resolved JUndefined, s))"

definition disconnect :: "'ts transport_ops \<Rightarrow> 'ts session \<Rightarrow> pstate \<times> 'ts session" where
  "disconnect T s =
     (if t_needsConnection T \<and> t_isConnected T (transport s)
      then (case t_disconnect T (transport s) of
              (r, ts) \<Rightarrow> (r, s\<lparr>transport := ts, trace := trace s @ [Disconnect]\<rparr>))
      else (Resolved JUndefined, s))"

subsection \<open>Settling promises; the engine's operations\<close>

definition resolve_promise :: "pref \<Rightarrow> jsval \<Rightarrow> 'ts session \<Rightarrow> 'ts session" where
  "resolve_promise p v s = s\<lparr>promises := (promises s)(p := resolve v (promises s p))\<rparr>"

definition reject_promise :: "pref \<Rightarrow> jsval \<Rightarrow> 'ts session \<Rightarrow> 'ts session" where
  "reject_promise p e s = s\<lparr>promises := (promises s)(p := reject e (promises s p))\<rparr>"

text \<open>\<^verbatim>\<open>new Promise\<close> in \<^verbatim>\<open>call\<close> and in \<^verbatim>\<open>batch\<close>: a fresh pending promise,
  the next of its kind.\<close>

definition new_call_promise :: "'ts session \<Rightarrow> nat \<times> 'ts session" where
  "new_call_promise s =
     (next_call s,
      s\<lparr>next_call := Suc (next_call s),
        promises := (promises s)(CallP (next_call s) := Pending)\<rparr>)"

definition new_batch_promise :: "'ts session \<Rightarrow> nat \<times> 'ts session" where
  "new_batch_promise s =
     (next_batch s,
      s\<lparr>next_batch := Suc (next_batch s),
        promises := (promises s)(BatchP (next_batch s) := Pending)\<rparr>)"

text \<open>The bodies of the two completion callbacks, as written in \<^verbatim>\<open>call\<close> and in
  \<^verbatim>\<open>prepare\<close>.\<close>

definition invoke_callback :: "callback \<Rightarrow> jsval \<Rightarrow> jsval \<Rightarrow> 'ts session \<Rightarrow> 'ts session" where
  "invoke_callback cb err result s =
     (case cb of
        CallCallback n rejectOnError \<Rightarrow>
          (if rejectOnError
           then (if truthy err then reject_promise (CallP n) err s
                 else resolve_promise (CallP n) result s)
           else resolve_promise (CallP n) (response err result) s)
      | PrepareCallback i \<Rightarrow> resolve_promise (LazyP i) (response err result) s)"

text \<open>\<^verbatim>\<open>remote.call(method, params, callback)\<close>.\<close>

definition remote_call :: "jsval \<Rightarrow> jsval \<Rightarrow> callback \<Rightarrow> 'ts session \<Rightarrow> 'ts session" where
  "remote_call method params cb s =
     (let i = Suc (serial (remote s)) in
      s\<lparr>remote := (remote s)\<lparr>serial := i,
            outbox := outbox (remote s) @
              [\<lparr>pc_id = i, pc_method = method, pc_params = params,
                pc_callback = cb, pc_sent = False\<rparr>]\<rparr>,
        trace := trace s @ [Register i method params]\<rparr>)"

text \<open>
  \<^verbatim>\<open>remote.transmit((data, next) => { next(); transport.send(data).catch(reject); })\<close>,
  where \<^verbatim>\<open>reject\<close> is the one of the promise \<open>p\<close>: the pending calls not yet sent go
  out in one message; a \<^verbatim>\<open>send\<close> that fails rejects \<open>p\<close>.  With nothing to send
  the engine does not call \<^verbatim>\<open>sendFn\<close>.
\<close>

definition remote_transmit :: "'ts transport_ops \<Rightarrow> pref \<Rightarrow> 'ts session \<Rightarrow> 'ts session" where
  "remote_transmit T p s =
     (let unsent = filter (\<lambda>c. \<not> pc_sent c) (outbox (remote s)) in
      if unsent = [] then s
      else
        (let data = map (\<lambda>c. (pc_id c, pc_method c, pc_params c)) unsent in
         case t_send T data (transport s) of
           (r, ts) \<Rightarrow>
             (let s1 = s\<lparr>remote := (remote s)\<lparr>outbox :=
                             map (\<lambda>c. c\<lparr>pc_sent := True\<rparr>) (outbox (remote s))\<rparr>,
                         transport := ts,
                         trace := trace s @ [Send data]\<rparr>
              in case r of Rejected e \<Rightarrow> reject_promise p e s1 | _ \<Rightarrow> s1)))"

subsection \<open>Aggregation: \<^verbatim>\<open>Promise.all\<close> and \<^verbatim>\<open>pProps\<close>\<close>

text \<open>The state of the promise behind an element of a batch.  A prepared call not yet
  started, and one of another client instance, are pending as far as this session
  goes.\<close>

definition element_state :: "'ts session \<Rightarrow> jsval \<Rightarrow> pstate" where
  "element_state s v =
     (case v of
        JLazyPromise ow i \<Rightarrow>
          (if ow = sid s \<and> i < length (lazies s) \<and> lz_started (lazies s ! i)
           then promises s (LazyP i)
           else Pending)
      | _ \<Rightarrow> Resolved v)"

fun first_rejection :: "pstate list \<Rightarrow> jsval option" where
  "first_rejection [] = None"
| "first_rejection (Rejected e # ps) = Some e"
| "first_rejection (p # ps) = first_rejection ps"

fun resolved_values :: "pstate list \<Rightarrow> jsval list option" where
  "resolved_values [] = Some []"
| "resolved_values (Resolved v # ps) =
     (case resolved_values ps of Some vs \<Rightarrow> Some (v # vs) | None \<Rightarrow> None)"
| "resolved_values (p # ps) = None"

text \<open>\<^verbatim>\<open>Promise.all\<close> rejects as soon as an element rejects and resolves, once every
  element has resolved, to the array of the values in the order of the input;
  \<^verbatim>\<open>pProps\<close> (the package \<^verbatim>\<open>p-props\<close>) does the same for the values of an object
  and resolves to an object with the keys of the input.\<close>

definition promise_all :: "pstate list \<Rightarrow> pstate" where
  "promise_all ps =
     (case first_rejection ps of
        Some e \<Rightarrow> Rejected e
      | None \<Rightarrow> (case resolved_values ps of
                   Some vs \<Rightarrow> Resolved (JArr vs)
                 | None \<Rightarrow> Pending))"

definition pProps :: "string list \<Rightarrow> pstate list \<Rightarrow> pstate" where
  "pProps ks ps =
     (case first_rejection ps of
        Some e \<Rightarrow> Rejected e
      | None \<Rightarrow> (case resolved_values ps of
                   Some vs \<Rightarrow> Resolved (JObj (zip ks vs))
                 | None \<Rightarrow> Pending))"

definition elements :: "jsval \<Rightarrow> jsval list" where
  "elements v = (case v of JArr xs \<Rightarrow> xs | JObj kvs \<Rightarrow> map snd kvs | _ \<Rightarrow> [])"

definition keys :: "jsval \<Rightarrow> string list" where
  "keys v = (case v of JObj kvs \<Rightarrow> map fst kvs | _ \<Rightarrow> [])"

definition aggregate_state :: "'ts session \<Rightarrow> aggregate \<Rightarrow> pstate" where
  "aggregate_state s a =
     (let ps = map (element_state s) (elements (ag_requests a)) in
      if ag_array a then promise_all ps else pProps (keys (ag_requests a)) ps)"

text \<open>\<^verbatim>\<open>.then(resolve).catch(reject)\<close> on an aggregated promise in the state \<open>st\<close>.\<close>

definition settle_promise :: "pref \<Rightarrow> pstate \<Rightarrow> 'ts session \<Rightarrow> 'ts session" where
  "settle_promise p st s =
     (case st of
        Pending \<Rightarrow> s
      | Resolved v \<Rightarrow> resolve_promise p v s
      | Rejected e \<Rightarrow> reject_promise p e s)"

text \<open>After promises of prepared calls have settled, the running batches see it.\<close>

definition propagate :: "'ts session \<Rightarrow> 'ts session" where
  "propagate s =
     foldl (\<lambda>s' a. settle_promise (BatchP (ag_promise a)) (aggregate_state s' a) s')
       s (batches s)"

text \<open>
  Modelled from the spec: the engine completes the pending call \<open>i\<close> (a response, a
  timeout or a shutdown); its callback fires once, with \<^verbatim>\<open>(err, result)\<close>.
\<close>

definition complete :: "nat \<Rightarrow> jsval \<Rightarrow> jsval \<Rightarrow> 'ts session \<Rightarrow> 'ts session" where
  "complete i err result s =
     (case find (\<lambda>c. pc_id c = i) (outbox (remote s)) of
        None \<Rightarrow> s
      | Some c \<Rightarrow>
          propagate (invoke_callback (pc_callback c) err result
            (s\<lparr>remote := (remote s)\<lparr>outbox :=
                  filter (\<lambda>c. pc_id c \<noteq> i) (outbox (remote s))\<rparr>\<rparr>)))"

subsection \<open>\<^verbatim>\<open>call\<close>\<close>

text \<open>The closure \<^verbatim>\<open>makeCall\<close> of the \<open>n\<close>-th \<^verbatim>\<open>call\<close>.\<close>

definition makeCall ::
  "'ts transport_ops \<Rightarrow> jsval \<Rightarrow> jsval \<Rightarrow> bool \<Rightarrow> nat \<Rightarrow> 'ts session \<Rightarrow> 'ts session" where
  "makeCall T method params rejectOnError n s =
     remote_transmit T (CallP n)
       (remote_call method (js_or params (JArr [])) (CallCallback n rejectOnError) s)"

text \<open>
  \<^verbatim>\<open>call(method, params, { rejectOnError = true } = {})\<close>: the number \<open>n\<close> of the
  call (the promise returned is \<open>CallP n\<close>) and the session when \<^verbatim>\<open>call\<close>
  returns.  The executor runs inside \<^verbatim>\<open>call\<close>.  On a connected session it runs
  \<^verbatim>\<open>makeCall\<close>.  On a session that is not connected, with \<^verbatim>\<open>autoConnect\<close>, it
  calls \<^verbatim>\<open>this.connect()\<close>, which calls the transport's \<^verbatim>\<open>connect\<close> before it
  returns, and leaves \<^verbatim>\<open>makeCall\<close> as a reaction on the promise of \<^verbatim>\<open>connect\<close>:
  \<^verbatim>\<open>makeCall\<close> runs in a later turn, after whatever the application does in
  between.
\<close>

definition call ::
  "'ts transport_ops \<Rightarrow> jsval \<Rightarrow> jsval \<Rightarrow> jsval \<Rightarrow> 'ts session \<Rightarrow> nat \<times> 'ts session" where
  "call T method params rejectOnError s =
     (case new_call_promise s of
        (n, s0) \<Rightarrow>
          (n,
           if \<not> check_nonEmptyString method
           then reject_promise (CallP n) (JErr (TypeError msg_method)) s0
           else
             (let rej = truthy (js_default rejectOnError (JBool True)) in
              if \<not> isConnected T s0
              then (if \<not> autoConnect s0
                    then reject_promise (CallP n) (JErr (Error msg_not_connected)) s0
                    else (case connect T s0 of
                            (r, s1) \<Rightarrow>
                              s1\<lparr>tasks := tasks s1 @ [ThenMakeCall r n method params rej]\<rparr>))
              else makeCall T method params rej n s0)))"

subsection \<open>\<^verbatim>\<open>prepare\<close>\<close>

text \<open>
  \<^verbatim>\<open>prepare(method, params)\<close> returns \<^verbatim>\<open>new LazyPromise(executor)\<close>.
  \<^verbatim>\<open>LazyPromise\<close> is the external package \<^verbatim>\<open>lazy-promise\<close>, a lazy promise: the
  constructor keeps the executor and does not start it; the first \<^verbatim>\<open>then\<close> (an
  \<^verbatim>\<open>await\<close>, or the \<^verbatim>\<open>Promise.all\<close> and \<^verbatim>\<open>pProps\<close> of \<^verbatim>\<open>batch\<close>) creates
  the promise and runs the executor, later ones reuse the promise.  (This is why
  \<^verbatim>\<open>batch\<close> puts off \<^verbatim>\<open>remote.transmit\<close> with \<^verbatim>\<open>setImmediate\<close>: the
  executors that register the calls run after \<^verbatim>\<open>makeCalls\<close> has returned.)
\<close>

definition prepare :: "jsval \<Rightarrow> jsval \<Rightarrow> 'ts session \<Rightarrow> jsval \<times> 'ts session" where
  "prepare method params s =
     (JLazyPromise (sid s) (length (lazies s)),
      s\<lparr>lazies := lazies s @
           [\<lparr>lz_method = method, lz_params = params, lz_started = False\<rparr>]\<rparr>)"

text \<open>The executor written in \<^verbatim>\<open>prepare\<close>, for the \<open>i\<close>-th prepared call.\<close>

definition prepare_executor ::
  "'ts transport_ops \<Rightarrow> jsval \<Rightarrow> jsval \<Rightarrow> nat \<Rightarrow> 'ts session \<Rightarrow> 'ts session" where
  "prepare_executor T method params i s =
     (if \<not> check_nonEmptyString method
      then reject_promise (LazyP i) (JErr (TypeError msg_method)) s
      else
        (let s1 = remote_call method (js_or params (JArr [])) (PrepareCallback i) s in
         if \<not> batchRequests s1 then remote_transmit T (LazyP i) s1 else s1))"

text \<open>The \<^verbatim>\<open>then\<close> of the \<open>i\<close>-th prepared call of this session.\<close>

definition lazy_then :: "'ts transport_ops \<Rightarrow> nat \<Rightarrow> 'ts session \<Rightarrow> 'ts session" where
  "lazy_then T i s =
     (if i < length (lazies s) \<and> \<not> lz_started (lazies s ! i)
      then prepare_executor T (lz_method (lazies s ! i)) (lz_params (lazies s ! i)) i
             (s\<lparr>lazies := (lazies s)[i := (lazies s ! i)\<lparr>lz_started := True\<rparr>],
                promises := (promises s)(LazyP i := Pending)\<rparr>)
      else s)"

subsection \<open>\<^verbatim>\<open>batch\<close>\<close>

text \<open>\<^verbatim>\<open>Promise.all\<close> and \<^verbatim>\<open>pProps\<close> call \<^verbatim>\<open>then\<close> on every element, in
  order.  The executor of another instance's prepared call runs on that instance.\<close>

definition then_element :: "'ts transport_ops \<Rightarrow> 'ts session \<Rightarrow> jsval \<Rightarrow> 'ts session" where
  "then_element T s v =
     (case v of
        JLazyPromise ow i \<Rightarrow> (if ow = sid s then lazy_then T i s else s)
      | _ \<Rightarrow> s)"

text \<open>
  The closure \<^verbatim>\<open>makeCalls\<close> of the \<open>k\<close>-th \<^verbatim>\<open>batch\<close>.  \<^verbatim>\<open>Promise.all\<close>
  and \<^verbatim>\<open>pProps\<close> do not call \<^verbatim>\<open>then\<close> on a \<^verbatim>\<open>LazyPromise\<close> themselves: they
  queue a job for each element, which calls it; \<^verbatim>\<open>remote.transmit\<close> is put off
  with \<^verbatim>\<open>setImmediate\<close>.  So \<^verbatim>\<open>makeCalls\<close> itself registers and sends nothing.
\<close>

definition makeCalls :: "bool \<Rightarrow> jsval \<Rightarrow> nat \<Rightarrow> 'ts session \<Rightarrow> 'ts session" where
  "makeCalls array requests k s =
     s\<lparr>tasks := tasks s @ PromiseAll k array requests #
                   (if batchRequests s then [SetImmediate k] else [])\<rparr>"

text \<open>The part of \<^verbatim>\<open>batch\<close> after the validation of \<^verbatim>\<open>requests\<close>; as in
  \<^verbatim>\<open>call\<close>, \<^verbatim>\<open>makeCalls\<close> runs at once on a connected session and is left as a
  reaction on the promise of \<^verbatim>\<open>connect\<close> otherwise.\<close>

definition batch_connected ::
  "'ts transport_ops \<Rightarrow> bool \<Rightarrow> jsval \<Rightarrow> nat \<Rightarrow> 'ts session \<Rightarrow> 'ts session" where
  "batch_connected T array requests k s =
     (if \<not> isConnected T s
      then (if \<not> autoConnect s
            then reject_promise (BatchP k) (JErr (Error msg_not_connected)) s
            else (case connect T s of
                    (r, s1) \<Rightarrow> s1\<lparr>tasks := tasks s1 @ [ThenMakeCalls r k array requests]\<rparr>))
      else makeCalls array requests k s)"

text \<open>\<^verbatim>\<open>batch(requests)\<close>: the number \<open>k\<close> of the batch (the promise returned is
  \<open>BatchP k\<close>) and the session afterwards.\<close>

definition batch :: "'ts transport_ops \<Rightarrow> jsval \<Rightarrow> 'ts session \<Rightarrow> nat \<times> 'ts session" where
  "batch T requests s =
     (case new_batch_promise s of
        (k, s0) \<Rightarrow>
          (k,
           if check_array requests
           then (if check_emptyArray requests then resolve_promise (BatchP k) (JArr []) s0
                 else if \<not> array_of_instanceStrict_LazyPromise requests
                 then reject_promise (BatchP k) (JErr (TypeError msg_requests)) s0
                 else batch_connected T True requests k s0)
           else if check_object requests
           then (if check_emptyObject requests then resolve_promise (BatchP k) (JObj []) s0
                 else if \<not> object_of_instanceStrict_LazyPromise requests
                 then reject_promise (BatchP k) (JErr (TypeError msg_requests)) s0
                 else batch_connected T False requests k s0)
           else reject_promise (BatchP k) (JErr (TypeError msg_requests)) s0))"

subsection \<open>Later turns\<close>

text \<open>
  A task runs.  A reaction on the promise of \<^verbatim>\<open>connect()\<close> runs the closure when
  the promise has resolved and \<^verbatim>\<open>reject\<close> when it has rejected; on a promise that
  never settles it does not run.  The jobs of \<^verbatim>\<open>Promise.all\<close> and \<^verbatim>\<open>pProps\<close>
  call \<^verbatim>\<open>then\<close> on the elements in order, which starts the prepared calls not
  yet started; from then on the batch follows its elements
  (\<^verbatim>\<open>.then(resolve).catch(reject)\<close>).
\<close>

definition run_task :: "'ts transport_ops \<Rightarrow> task \<Rightarrow> 'ts session \<Rightarrow> 'ts session" where
  "run_task T t s =
     (case t of
        ThenMakeCall r n method params rej \<Rightarrow>
          (case r of
             Resolved v \<Rightarrow> makeCall T method params rej n s
           | Rejected e \<Rightarrow> reject_promise (CallP n) e s
           | Pending \<Rightarrow> s)
      | ThenMakeCalls r k array requests \<Rightarrow>
          (case r of
             Resolved v \<Rightarrow> makeCalls array requests k s
           | Rejected e \<Rightarrow> reject_promise (BatchP k) e s
           | Pending \<Rightarrow> s)
      | PromiseAll k array requests \<Rightarrow>
          propagate (foldl (then_element T)
            (s\<lparr>batches := batches s @
                 [\<lparr>ag_promise = k, ag_array = array, ag_requests = requests\<rparr>]\<rparr>)
            (elements requests))
      | SetImmediate k \<Rightarrow> remote_transmit T (BatchP k) s)"

text \<open>The \<open>j\<close>-th of the tasks runs, and is a task no more.  (In which order the
  tasks run is the event loop's business; the model allows every order.)\<close>

definition next_turn :: "'ts transport_ops \<Rightarrow> nat \<Rightarrow> 'ts session \<Rightarrow> 'ts session" where
  "next_turn T j s =
     (if j < length (tasks s)
      then run_task T (tasks s ! j) (s\<lparr>tasks := take j (tasks s) @ drop (Suc j) (tasks s)\<rparr>)
      else s)"

subsection \<open>\<^verbatim>\<open>notification\<close>\<close>

text \<open>
  Modelled from the spec: \<^verbatim>\<open>remote.expose(name, fn)\<close> registers \<^verbatim>\<open>fn\<close> under
  \<^verbatim>\<open>name\<close>, in place of an earlier one.  \<^verbatim>\<open>remote.exposed\<close> is an ordinary
  object (the client calls its \<^verbatim>\<open>hasOwnProperty\<close> and deletes from it), and the
  registration is the own property \<^verbatim>\<open>name\<close> of it (the client unregisters by
  \<^verbatim>\<open>delete remote.exposed[name]\<close>).
\<close>

definition expose :: "string \<Rightarrow> jsval \<Rightarrow> engine \<Rightarrow> engine" where
  "expose name f r = r\<lparr>exposed := AList.update name f (exposed r)\<rparr>"

text \<open>
  \<^verbatim>\<open>notification(name, handler)\<close>.  What the client exposes is the closure
  \<^verbatim>\<open>(params, next) => { handler.call(null, params); next(true); }\<close>; the model
  stores \<open>handler\<close> for it.

  \<^verbatim>\<open>remote.exposed.hasOwnProperty(name)\<close> looks \<^verbatim>\<open>hasOwnProperty\<close> up on
  \<^verbatim>\<open>remote.exposed\<close> itself first.  With no own property of that name it is the
  builtin of \<^verbatim>\<open>Object.prototype\<close>: does \<^verbatim>\<open>name\<close> name an own property?  With a
  handler \<open>h\<close> registered under the name \<^verbatim>\<open>hasOwnProperty\<close> it is the closure of
  \<open>h\<close>, called with \<^verbatim>\<open>params = name\<close> and no \<^verbatim>\<open>next\<close>: it calls \<open>h\<close> with
  \<^verbatim>\<open>name\<close>, then \<^verbatim>\<open>next(true)\<close> throws a \<^verbatim>\<open>TypeError\<close>, which leaves
  \<^verbatim>\<open>notification\<close>.  The result is the error thrown, if any, and the session.
\<close>

definition msg_next :: string where
  "msg_next = ''next is not a function''"

definition notification ::
  "string \<Rightarrow> jsval \<Rightarrow> 'ts session \<Rightarrow> js_error option \<times> 'ts session" where
  "notification name handler s =
     (if check_function handler
      then (None, s\<lparr>remote := expose name handler (remote s)\<rparr>)
      else (case map_of (exposed (remote s)) ''hasOwnProperty'' of
              None \<Rightarrow>
                (if name \<in> set (map fst (exposed (remote s)))
                 then (None, s\<lparr>remote := (remote s)\<lparr>exposed :=
                                  AList.delete name (exposed (remote s))\<rparr>\<rparr>)
                 else (None, s))
            | Some h \<Rightarrow>
                (Some (TypeError msg_next),
                 s\<lparr>invoked := invoked s @ [(h, JStr name)]\<rparr>)))"

text \<open>
  Modelled from the spec: the engine dispatches an inbound notification \<open>name\<close> to
  the handler registered under that name, with the notification's parameters; the
  client's closure calls the user's handler with them.
\<close>

definition deliver_notification :: "string \<Rightarrow> jsval \<Rightarrow> 'ts session \<Rightarrow> 'ts session" where
  "deliver_notification name params s =
     (case map_of (exposed (remote s)) name of
        None \<Rightarrow> s
      | Some h \<Rightarrow> s\<lparr>invoked := invoked s @ [(h, params)]\<rparr>)"

text \<open>The arguments with which the handler \<open>h\<close> was called.\<close>

definition calls_of :: "jsval \<Rightarrow> 'ts session \<Rightarrow> jsval list" where
  "calls_of h s = map snd (filter (\<lambda>c. fst c = h) (invoked s))"

section \<open>Inbound data\<close>

text \<open>
  The transport emits \<^verbatim>\<open>data\<close> with the decoded message: JSON data, which holds
  no function and no \<^verbatim>\<open>undefined\<close>.  An object is the list of its own properties.
\<close>

datatype json =
    DNull
  | DBool bool
  | DNum int
  | DStr string
  | DArr "json list"
  | DObj "(string \<times> json) list"

fun truthy_data :: "json \<Rightarrow> bool" where
  "truthy_data DNull = False"
| "truthy_data (DBool b) = b"
| "truthy_data (DNum n) = (n \<noteq> 0)"
| "truthy_data (DStr s) = (s \<noteq> [])"
| "truthy_data (DArr xs) = True"
| "truthy_data (DObj kvs) = True"

definition msg_hasOwnProperty :: string where
  "msg_hasOwnProperty = ''response.hasOwnProperty is not a function''"

text \<open>
  \<^verbatim>\<open>cleanResponse(response)\<close>.  A falsy response fails the guard.  A string, a
  number, \<^verbatim>\<open>true\<close> and an array have no own property \<^verbatim>\<open>error\<close>: the guard
  fails too.  On an object, \<^verbatim>\<open>response.hasOwnProperty\<close> is the builtin unless the
  object has an own property of that name; decoded data holds no function, so calling
  that one throws a \<^verbatim>\<open>TypeError\<close>.
\<close>

fun cleanResponse :: "json \<Rightarrow> js_error + json" where
  "cleanResponse (DObj kvs) =
     (case map_of kvs ''hasOwnProperty'' of
        Some v \<Rightarrow> Inl (TypeError msg_hasOwnProperty)
      | None \<Rightarrow>
          (if ''error'' \<in> set (map fst kvs) \<and> ''result'' \<in> set (map fst kvs)
           then (case map_of kvs ''error'' of
                   Some e \<Rightarrow>
                     (if truthy_data e then Inr (DObj (AList.delete ''result'' kvs))
                      else Inr (DObj (AList.delete ''error'' kvs)))
                 | None \<Rightarrow> Inr (DObj kvs))
           else Inr (DObj kvs)))"
| "cleanResponse v = Inr v"

text \<open>The loop of \<^verbatim>\<open>onTransportData\<close> over an array; a throw ends it.\<close>

fun clean_each :: "json list \<Rightarrow> js_error + json list" where
  "clean_each [] = Inr []"
| "clean_each (x # xs) =
     (case cleanResponse x of
        Inl e \<Rightarrow> Inl e
      | Inr y \<Rightarrow> (case clean_each xs of Inl e \<Rightarrow> Inl e | Inr ys \<Rightarrow> Inr (y # ys)))"

text \<open>\<^verbatim>\<open>onTransportData(data)\<close>: the data handed to \<^verbatim>\<open>remote.receive\<close>, or the
  error thrown before.\<close>

definition onTransportData :: "json \<Rightarrow> js_error + json" where
  "onTransportData data =
     (if truthy_data data
      then (case data of
              DArr xs \<Rightarrow> (case clean_each xs of Inl e \<Rightarrow> Inl e | Inr ys \<Rightarrow> Inr (DArr ys))
            | DObj kvs \<Rightarrow> cleanResponse data
            | _ \<Rightarrow> Inr data)
      else Inr data)"

text \<open>A decoded object with an own property \<^verbatim>\<open>hasOwnProperty\<close>.\<close>

definition shadows :: "json \<Rightarrow> bool" where
  "shadows v = (case v of DObj kvs \<Rightarrow> map_of kvs ''hasOwnProperty'' \<noteq> None | _ \<Rightarrow> False)"

text \<open>The property \<open>k\<close> of a decoded object, if it has one.\<close>

definition property :: "string \<Rightarrow> json \<Rightarrow> json option" where
  "property k v = (case v of DObj kvs \<Rightarrow> map_of kvs k | _ \<Rightarrow> None)"

section \<open>Transports and sessions of the examples\<close>

text \<open>A transport like \<^verbatim>\<open>ConnectedTransport\<close> whose \<^verbatim>\<open>connect\<close> fails.\<close>

definition refusing :: "bool transport_ops" where
  "refusing = ConnectedTransport
     \<lparr> t_connect := (\<lambda>c. (Rejected (JErr (Error ''ECONNREFUSED'')), c)) \<rparr>"


section \<open>Runs of a session\<close>

text \<open>
  What happens to a session, one event at a time: the application calls a method of
  the client or awaits a prepared call (\<open>Then i\<close>: the \<^verbatim>\<open>then\<close> of the \<open>i\<close>-th
  prepared call), the engine completes a pending call (\<open>Complete\<close>: a response has
  come in, the call has timed out, or the engine was shut down), the engine
  dispatches an inbound notification (\<open>Deliver\<close>), or a task runs (\<open>Turn j\<close>: the
  \<open>j\<close>-th of them).
\<close>

datatype event =
    Call jsval jsval jsval
  | Prepare jsval jsval
  | Then nat
  | Batch jsval
  | DoConnect
  | DoDisconnect
  | Notification string jsval
  | Complete nat jsval jsval
  | Deliver string jsval
  | Turn nat

fun step :: "'ts transport_ops \<Rightarrow> 'ts session \<Rightarrow> event \<Rightarrow> 'ts session" where
  "step T s (Call m ps opt) = snd (call T m ps opt s)"
| "step T s (Prepare m ps) = snd (prepare m ps s)"
| "step T s (Then i) = lazy_then T i s"
| "step T s (Batch r) = snd (batch T r s)"
| "step T s DoConnect = snd (connect T s)"
| "step T s DoDisconnect = snd (disconnect T s)"
| "step T s (Notification n h) = snd (notification n h s)"
| "step T s (Complete i err result) = complete i err result s"
| "step T s (Deliver n ps) = deliver_notification n ps s"
| "step T s (Turn j) = next_turn T j s"

definition run :: "'ts transport_ops \<Rightarrow> 'ts session \<Rightarrow> event list \<Rightarrow> 'ts session" where
  "run T s evs = foldl (step T) s evs"

text \<open>The requests that \<^verbatim>\<open>remote.transmit\<close> would put into a message now.\<close>

definition unsent :: "'ts session \<Rightarrow> wire" where
  "unsent s = map (\<lambda>c. (pc_id c, pc_method c, pc_params c))
                (filter (\<lambda>c. \<not> pc_sent c) (outbox (remote s)))"

text \<open>The calls registered with the engine and not completed yet: correlation id,
  method, parameters and callback.\<close>

definition registered :: "'ts session \<Rightarrow> (nat \<times> jsval \<times> jsval \<times> callback) list" where
  "registered s = map (\<lambda>c. (pc_id c, pc_method c, pc_params c, pc_callback c))
                    (outbox (remote s))"

section \<open>Auxiliary facts\<close>

text \<open>Settling a promise changes the promise store only.\<close>

lemma resolve_promise_fields [simp]:
  "sid (resolve_promise p v s) = sid s"
  "transport (resolve_promise p v s) = transport s"
  "remote (resolve_promise p v s) = remote s"
  "autoConnect (resolve_promise p v s) = autoConnect s"
  "batchRequests (resolve_promise p v s) = batchRequests s"
  "next_call (resolve_promise p v s) = next_call s"
  "next_batch (resolve_promise p v s) = next_batch s"
  "lazies (resolve_promise p v s) = lazies s"
  "batches (resolve_promise p v s) = batches s"
  "trace (resolve_promise p v s) = trace s"
  "invoked (resolve_promise p v s) = invoked s"
  "tasks (resolve_promise p v s) = tasks s"
  by (simp_all add: resolve_promise_def)

lemma reject_promise_fields [simp]:
  "sid (reject_promise p v s) = sid s"
  "transport (reject_promise p v s) = transport s"
  "remote (reject_promise p v s) = remote s"
  "autoConnect (reject_promise p v s) = autoConnect s"
  "batchRequests (reject_promise p v s) = batchRequests s"
  "next_call (reject_promise p v s) = next_call s"
  "next_batch (reject_promise p v s) = next_batch s"
  "lazies (reject_promise p v s) = lazies s"
  "batches (reject_promise p v s) = batches s"
  "trace (reject_promise p v s) = trace s"
  "invoked (reject_promise p v s) = invoked s"
  "tasks (reject_promise p v s) = tasks s"
  by (simp_all add: reject_promise_def)

lemma settle_promise_fields [simp]:
  "sid (settle_promise p st s) = sid s"
  "transport (settle_promise p st s) = transport s"
  "remote (settle_promise p st s) = remote s"
  "autoConnect (settle_promise p st s) = autoConnect s"
  "batchRequests (settle_promise p st s) = batchRequests s"
  "next_call (settle_promise p st s) = next_call s"
  "next_batch (settle_promise p st s) = next_batch s"
  "lazies (settle_promise p st s) = lazies s"
  "batches (settle_promise p st s) = batches s"
  "trace (settle_promise p st s) = trace s"
  "invoked (settle_promise p st s) = invoked s"
  "tasks (settle_promise p st s) = tasks s"
  by (simp_all add: settle_promise_def split: pstate.splits)

lemma settle_all_fields:
  "sid (foldl (\<lambda>s' a. settle_promise (BatchP (ag_promise a)) (aggregate_state s' a) s') s as) = sid s
   \<and> transport (foldl (\<lambda>s' a. settle_promise (BatchP (ag_promise a)) (aggregate_state s' a) s') s as) = transport s
   \<and> remote (foldl (\<lambda>s' a. settle_promise (BatchP (ag_promise a)) (aggregate_state s' a) s') s as) = remote s
   \<and> autoConnect (foldl (\<lambda>s' a. settle_promise (BatchP (ag_promise a)) (aggregate_state s' a) s') s as) = autoConnect s
   \<and> batchRequests (foldl (\<lambda>s' a. settle_promise (BatchP (ag_promise a)) (aggregate_state s' a) s') s as) = batchRequests s
   \<and> next_call (foldl (\<lambda>s' a. settle_promise (BatchP (ag_promise a)) (aggregate_state s' a) s') s as) = next_call s
   \<and> next_batch (foldl (\<lambda>s' a. settle_promise (BatchP (ag_promise a)) (aggregate_state s' a) s') s as) = next_batch s
   \<and> lazies (foldl (\<lambda>s' a. settle_promise (BatchP (ag_promise a)) (aggregate_state s' a) s') s as) = lazies s
   \<and> batches (foldl (\<lambda>s' a. settle_promise (BatchP (ag_promise a)) (aggregate_state s' a) s') s as) = batches s
   \<and> trace (foldl (\<lambda>s' a. settle_promise (BatchP (ag_promise a)) (aggregate_state s' a) s') s as) = trace s
   \<and> invoked (foldl (\<lambda>s' a. settle_promise (BatchP (ag_promise a)) (aggregate_state s' a) s') s as) = invoked s
   \<and> tasks (foldl (\<lambda>s' a. settle_promise (BatchP (ag_promise a)) (aggregate_state s' a) s') s as) = tasks s"
  by (induction as arbitrary: s) simp_all

lemma propagate_fields [simp]:
  "sid (propagate s) = sid s"
  "transport (propagate s) = transport s"
  "remote (propagate s) = remote s"
  "autoConnect (propagate s) = autoConnect s"
  "batchRequests (propagate s) = batchRequests s"
  "next_call (propagate s) = next_call s"
  "next_batch (propagate s) = next_batch s"
  "lazies (propagate s) = lazies s"
  "batches (propagate s) = batches s"
  "trace (propagate s) = trace s"
  "invoked (propagate s) = invoked s"
  "tasks (propagate s) = tasks s"
  using settle_all_fields [of s "batches s"] by (simp_all add: propagate_def)

lemma new_call_promise_fields [simp]:
  "fst (new_call_promise s) = next_call s"
  "sid (snd (new_call_promise s)) = sid s"
  "transport (snd (new_call_promise s)) = transport s"
  "remote (snd (new_call_promise s)) = remote s"
  "autoConnect (snd (new_call_promise s)) = autoConnect s"
  "batchRequests (snd (new_call_promise s)) = batchRequests s"
  "next_call (snd (new_call_promise s)) = Suc (next_call s)"
  "next_batch (snd (new_call_promise s)) = next_batch s"
  "lazies (snd (new_call_promise s)) = lazies s"
  "batches (snd (new_call_promise s)) = batches s"
  "trace (snd (new_call_promise s)) = trace s"
  "invoked (snd (new_call_promise s)) = invoked s"
  "tasks (snd (new_call_promise s)) = tasks s"
  "promises (snd (new_call_promise s)) = (promises s)(CallP (next_call s) := Pending)"
  by (simp_all add: new_call_promise_def)

lemma new_batch_promise_fields [simp]:
  "fst (new_batch_promise s) = next_batch s"
  "sid (snd (new_batch_promise s)) = sid s"
  "transport (snd (new_batch_promise s)) = transport s"
  "remote (snd (new_batch_promise s)) = remote s"
  "autoConnect (snd (new_batch_promise s)) = autoConnect s"
  "batchRequests (snd (new_batch_promise s)) = batchRequests s"
  "next_call (snd (new_batch_promise s)) = next_call s"
  "next_batch (snd (new_batch_promise s)) = Suc (next_batch s)"
  "lazies (snd (new_batch_promise s)) = lazies s"
  "batches (snd (new_batch_promise s)) = batches s"
  "trace (snd (new_batch_promise s)) = trace s"
  "invoked (snd (new_batch_promise s)) = invoked s"
  "tasks (snd (new_batch_promise s)) = tasks s"
  "promises (snd (new_batch_promise s)) = (promises s)(BatchP (next_batch s) := Pending)"
  by (simp_all add: new_batch_promise_def)

lemma isConnected_new_promise [simp]:
  "isConnected T (snd (new_call_promise s)) = isConnected T s"
  "isConnected T (snd (new_batch_promise s)) = isConnected T s"
  by (simp_all add: isConnected_def)

lemma remote_call_fields [simp]:
  "sid (remote_call m ps cb s) = sid s"
  "transport (remote_call m ps cb s) = transport s"
  "autoConnect (remote_call m ps cb s) = autoConnect s"
  "batchRequests (remote_call m ps cb s) = batchRequests s"
  "next_call (remote_call m ps cb s) = next_call s"
  "next_batch (remote_call m ps cb s) = next_batch s"
  "promises (remote_call m ps cb s) = promises s"
  "lazies (remote_call m ps cb s) = lazies s"
  "batches (remote_call m ps cb s) = batches s"
  "invoked (remote_call m ps cb s) = invoked s"
  "tasks (remote_call m ps cb s) = tasks s"
  "trace (remote_call m ps cb s) = trace s @ [Register (Suc (serial (remote s))) m ps]"
  "serial (remote (remote_call m ps cb s)) = Suc (serial (remote s))"
  "exposed (remote (remote_call m ps cb s)) = exposed (remote s)"
  "remoteTimeout (remote (remote_call m ps cb s)) = remoteTimeout (remote s)"
  "outbox (remote (remote_call m ps cb s)) = outbox (remote s) @
      [\<lparr>pc_id = Suc (serial (remote s)), pc_method = m, pc_params = ps,
        pc_callback = cb, pc_sent = False\<rparr>]"
  by (simp_all add: remote_call_def Let_def)

text \<open>The message that \<^verbatim>\<open>remote.transmit\<close> would send now.\<close>

lemma remote_transmit_nothing:
  "filter (\<lambda>c. \<not> pc_sent c) (outbox (remote s)) = [] \<Longrightarrow> remote_transmit T p s = s"
  by (simp add: remote_transmit_def)

lemma remote_transmit_fields:
  assumes "filter (\<lambda>c. \<not> pc_sent c) (outbox (remote s)) \<noteq> []"
  shows "sid (remote_transmit T p s) = sid s"
  "transport (remote_transmit T p s) =
     snd (t_send T (map (\<lambda>c. (pc_id c, pc_method c, pc_params c))
        (filter (\<lambda>c. \<not> pc_sent c) (outbox (remote s)))) (transport s))"
  "autoConnect (remote_transmit T p s) = autoConnect s"
  "batchRequests (remote_transmit T p s) = batchRequests s"
  "next_call (remote_transmit T p s) = next_call s"
  "lazies (remote_transmit T p s) = lazies s"
  "batches (remote_transmit T p s) = batches s"
  "invoked (remote_transmit T p s) = invoked s"
  "trace (remote_transmit T p s) = trace s @
     [Send (map (\<lambda>c. (pc_id c, pc_method c, pc_params c))
        (filter (\<lambda>c. \<not> pc_sent c) (outbox (remote s))))]"
  "remote (remote_transmit T p s) =
     (remote s)\<lparr>outbox := map (\<lambda>c. c\<lparr>pc_sent := True\<rparr>) (outbox (remote s))\<rparr>"
  "promises (remote_transmit T p s) =
     (case fst (t_send T (map (\<lambda>c. (pc_id c, pc_method c, pc_params c))
        (filter (\<lambda>c. \<not> pc_sent c) (outbox (remote s)))) (transport s)) of
        Rejected e \<Rightarrow> (promises s)(p := reject e (promises s p))
      | _ \<Rightarrow> promises s)"
  "next_batch (remote_transmit T p s) = next_batch s"
  "tasks (remote_transmit T p s) = tasks s"
  using assms
  by (simp_all add: remote_transmit_def Let_def reject_promise_def
        split: prod.splits pstate.splits)

text \<open>What is common to both cases of \<^verbatim>\<open>remote.transmit\<close>.\<close>

lemma remote_transmit_same [simp]:
  "sid (remote_transmit T p s) = sid s"
  "autoConnect (remote_transmit T p s) = autoConnect s"
  "batchRequests (remote_transmit T p s) = batchRequests s"
  "next_call (remote_transmit T p s) = next_call s"
  "next_batch (remote_transmit T p s) = next_batch s"
  "lazies (remote_transmit T p s) = lazies s"
  "batches (remote_transmit T p s) = batches s"
  "invoked (remote_transmit T p s) = invoked s"
  "tasks (remote_transmit T p s) = tasks s"
  "serial (remote (remote_transmit T p s)) = serial (remote s)"
  "exposed (remote (remote_transmit T p s)) = exposed (remote s)"
  "remoteTimeout (remote (remote_transmit T p s)) = remoteTimeout (remote s)"
proof -
  have "sid (remote_transmit T p s) = sid s
    \<and> autoConnect (remote_transmit T p s) = autoConnect s
    \<and> batchRequests (remote_transmit T p s) = batchRequests s
    \<and> next_call (remote_transmit T p s) = next_call s
    \<and> next_batch (remote_transmit T p s) = next_batch s
    \<and> lazies (remote_transmit T p s) = lazies s
    \<and> batches (remote_transmit T p s) = batches s
    \<and> invoked (remote_transmit T p s) = invoked s
    \<and> tasks (remote_transmit T p s) = tasks s
    \<and> serial (remote (remote_transmit T p s)) = serial (remote s)
    \<and> exposed (remote (remote_transmit T p s)) = exposed (remote s)
    \<and> remoteTimeout (remote (remote_transmit T p s)) = remoteTimeout (remote s)"
  proof (cases "filter (\<lambda>c. \<not> pc_sent c) (outbox (remote s)) = []")
    case True
    then have "remote_transmit T p s = s" by (rule remote_transmit_nothing)
    then show ?thesis by simp
  next
    case False
    note f = remote_transmit_fields [OF False, of T p]
    show ?thesis by (simp add: f(1,3,4,5,6,7,8,10,12,13))
  qed
  then show "sid (remote_transmit T p s) = sid s"
    "autoConnect (remote_transmit T p s) = autoConnect s"
    "batchRequests (remote_transmit T p s) = batchRequests s"
    "next_call (remote_transmit T p s) = next_call s"
    "next_batch (remote_transmit T p s) = next_batch s"
    "lazies (remote_transmit T p s) = lazies s"
    "batches (remote_transmit T p s) = batches s"
    "invoked (remote_transmit T p s) = invoked s"
    "tasks (remote_transmit T p s) = tasks s"
    "serial (remote (remote_transmit T p s)) = serial (remote s)"
    "exposed (remote (remote_transmit T p s)) = exposed (remote s)"
    "remoteTimeout (remote (remote_transmit T p s)) = remoteTimeout (remote s)"
    by simp_all
qed

text \<open>The operations only add to the trace.\<close>

lemma remote_transmit_trace: "\<exists>ops. trace (remote_transmit T p s) = trace s @ ops"
  using remote_transmit_nothing [of s T p] remote_transmit_fields(9) [of s T p]
  by (cases "filter (\<lambda>c. \<not> pc_sent c) (outbox (remote s)) = []") auto

lemma prepare_executor_trace:
  "\<exists>ops. trace (prepare_executor T m ps i s) = trace s @ ops"
  using remote_transmit_trace [of T "LazyP i"
      "remote_call m (js_or ps (JArr [])) (PrepareCallback i) s"]
  by (auto simp: prepare_executor_def Let_def)

lemma lazy_then_trace: "\<exists>ops. trace (lazy_then T i s) = trace s @ ops"
proof (cases "i < length (lazies s) \<and> \<not> lz_started (lazies s ! i)")
  case True
  define s0 where "s0 = s\<lparr>lazies := (lazies s)[i := (lazies s ! i)\<lparr>lz_started := True\<rparr>],
                promises := (promises s)(LazyP i := Pending)\<rparr>"
  have t: "trace s0 = trace s" by (simp add: s0_def)
  from True have "lazy_then T i s =
      prepare_executor T (lz_method (lazies s ! i)) (lz_params (lazies s ! i)) i s0"
    by (simp add: lazy_then_def s0_def)
  with prepare_executor_trace [of T _ _ i s0] t show ?thesis by auto
next
  case False
  then have "lazy_then T i s = s"
    by (auto simp: lazy_then_def)
  then show ?thesis by simp
qed

lemma then_element_trace: "\<exists>ops. trace (then_element T s v) = trace s @ ops"
  using lazy_then_trace [of T _ s] by (auto simp: then_element_def split: jsval.splits)

lemma then_elements_trace: "\<exists>ops. trace (foldl (then_element T) s vs) = trace s @ ops"
proof (induction vs arbitrary: s)
  case Nil
  then show ?case by simp
next
  case (Cons v vs)
  obtain o1 where "trace (then_element T s v) = trace s @ o1"
    using then_element_trace by blast
  moreover obtain o2 where
    "trace (foldl (then_element T) (then_element T s v) vs) = trace (then_element T s v) @ o2"
    using Cons.IH by blast
  ultimately show ?case by simp
qed


lemma connect_connected:
  assumes "isConnected T s"
  shows "connect T s = (Resolved JUndefined, s)"
  using assms by (auto simp: connect_def isConnected_def)

lemma call_invalid:
  assumes "\<not> check_nonEmptyString method"
  shows "call T method params opt s =
    (next_call s,
     reject_promise (CallP (next_call s)) (JErr (TypeError msg_method))
       (snd (new_call_promise s)))"
  using assms by (simp add: call_def split_beta)

lemma call_connected:
  assumes "check_nonEmptyString method" and "isConnected T s"
  shows "call T method params opt s =
    (next_call s,
     makeCall T method params (truthy (js_default opt (JBool True))) (next_call s)
       (snd (new_call_promise s)))"
  using assms by (simp add: call_def split_beta)



lemma remote_transmit_unsent:
  "unsent s \<noteq> [] \<Longrightarrow> trace (remote_transmit T p s) = trace s @ [Send (unsent s)]"
  "unsent s \<noteq> [] \<Longrightarrow> remote (remote_transmit T p s) =
     (remote s)\<lparr>outbox := map (\<lambda>c. c\<lparr>pc_sent := True\<rparr>) (outbox (remote s))\<rparr>"
  "unsent s \<noteq> [] \<Longrightarrow> promises (remote_transmit T p s) =
     (case fst (t_send T (unsent s) (transport s)) of
        Rejected e \<Rightarrow> (promises s)(p := reject e (promises s p))
      | _ \<Rightarrow> promises s)"
  "unsent s \<noteq> [] \<Longrightarrow> transport (remote_transmit T p s) = snd (t_send T (unsent s) (transport s))"
  "unsent s = [] \<Longrightarrow> remote_transmit T p s = s"
  using remote_transmit_fields(2,9,10,11) [of s T p] remote_transmit_nothing [of s T p]
  by (simp_all add: unsent_def)








text \<open>What the first \<^verbatim>\<open>then\<close> of a prepared call does to the prepared calls and to
  the calls registered.\<close>

lemma prepare_executor_lazies [simp]:
  "lazies (prepare_executor T m ps i s) = lazies s"
  "sid (prepare_executor T m ps i s) = sid s"
  "batchRequests (prepare_executor T m ps i s) = batchRequests s"
  by (simp_all add: prepare_executor_def Let_def)








lemma registered_remote_transmit [simp]:
  "registered (remote_transmit T p s) = registered s"
proof (cases "unsent s = []")
  case True
  then show ?thesis by (simp add: remote_transmit_unsent(5))
next
  case False
  from remote_transmit_unsent(2) [OF False, of T p] show ?thesis
    by (simp add: registered_def comp_def)
qed











lemma unsent_tasks [simp]: "unsent (s\<lparr>tasks := ts\<rparr>) = unsent s"
  by (simp add: unsent_def)

lemma registered_fields [simp]:
  "registered (s\<lparr>tasks := ts\<rparr>) = registered s"
  "registered (s\<lparr>batches := bs\<rparr>) = registered s"
  "registered (propagate s) = registered s"
  by (simp_all add: registered_def)

lemma unsent_fields [simp]:
  "unsent (s\<lparr>batches := bs\<rparr>) = unsent s"
  "unsent (propagate s) = unsent s"
  by (simp_all add: unsent_def)





section \<open>The constructor's timeout\<close>



section \<open>The response object\<close>

text \<open>
  C1, amended.  Of the response that \<^verbatim>\<open>call\<close> with \<^verbatim>\<open>rejectOnError\<close> false,
  and a prepared call, deliver for the completion \<^verbatim>\<open>(err, result)\<close> of the engine:
  a completion with an error (\<open>err\<close> truthy, the result \<^verbatim>\<open>null\<close> or
  \<^verbatim>\<open>undefined\<close>) gives \<^verbatim>\<open>{error: err, result: null}\<close>, a success with a truthy
  result gives \<^verbatim>\<open>{error: null, result: result}\<close>: exactly one field is not
  \<^verbatim>\<open>null\<close>.  A success whose result is \<^verbatim>\<open>null\<close> or \<^verbatim>\<open>undefined\<close> gives
  \<^verbatim>\<open>{error: null, result: null}\<close>: both fields are \<^verbatim>\<open>null\<close>.
\<close>

theorem response_fields:
  "(truthy err \<and> (result = JNull \<or> result = JUndefined) \<longrightarrow>
      response err result = JObj [(''error'', err), (''result'', JNull)]
      \<and> one_non_null (response err result))
   \<and> (\<not> truthy err \<and> truthy result \<longrightarrow>
      response err result = JObj [(''error'', JNull), (''result'', result)]
      \<and> one_non_null (response err result))
   \<and> (\<not> truthy err \<and> (result = JNull \<or> result = JUndefined) \<longrightarrow>
      response err result = JObj [(''error'', JNull), (''result'', JNull)]
      \<and> \<not> one_non_null (response err result))
   \<and> (promises s (CallP n) = Pending \<longrightarrow>
      promises (invoke_callback (CallCallback n False) err result s) (CallP n)
        = Resolved (response err result))
   \<and> (promises s (LazyP i) = Pending \<longrightarrow>
      promises (invoke_callback (PrepareCallback i) err result s) (LazyP i)
        = Resolved (response err result))"
  by (auto simp: response_def one_non_null_def field_def js_or_def invoke_callback_def
        resolve_promise_def resolve_def)

text \<open>The three cases at the completions of the repository's tests, and a success
  with the result \<^verbatim>\<open>null\<close>.\<close>

theorem response_fields_witness:
  "response JNull (JStr ''WyJwYXJhbXMiXQ=='')
     = JObj [(''error'', JNull), (''result'', JStr ''WyJwYXJhbXMiXQ=='')]
   \<and> one_non_null (response JNull (JStr ''WyJwYXJhbXMiXQ==''))
   \<and> response (JObj [(''code'', JNum 1234), (''message'', JStr ''Generic RPC error'')]) JUndefined
     = JObj [(''error'', JObj [(''code'', JNum 1234), (''message'', JStr ''Generic RPC error'')]),
             (''result'', JNull)]
   \<and> one_non_null
        (response (JObj [(''code'', JNum 1234), (''message'', JStr ''Generic RPC error'')])
           JUndefined)
   \<and> \<not> one_non_null (response (JBool False) JNull)
   \<and> promises (invoke_callback (PrepareCallback 0) JNull (JStr ''WyJwYXJhbXMiXQ=='')
         (initial_session 0 False 60 True True)) (LazyP 0)
     = Resolved (JObj [(''error'', JNull), (''result'', JStr ''WyJwYXJhbXMiXQ=='')])"
  using response_fields [of JNull "JStr ''WyJwYXJhbXMiXQ==''" "initial_session 0 False 60 True True" 0 0]
    response_fields [of "JObj [(''code'', JNum 1234), (''message'', JStr ''Generic RPC error'')]"
      JUndefined "initial_session 0 False 60 True True" 0 0]
    response_fields [of "JBool False" JNull "initial_session 0 False 60 True True" 0 0]
  by (simp add: initial_session_def one_non_null_def field_def)

text \<open>The claim as stated fails at a call that succeeds with the result \<^verbatim>\<open>null\<close>:
  the response delivered has both fields \<^verbatim>\<open>null\<close>.\<close>

theorem response_null_result_counterexample:
  "promises (invoke_callback (CallCallback 0 False) JNull JNull
       (initial_session 0 False 60 True True)) (CallP 0)
     = Resolved (JObj [(''error'', JNull), (''result'', JNull)])
   \<and> \<not> one_non_null (JObj [(''error'', JNull), (''result'', JNull)])"
  by (simp add: invoke_callback_def resolve_promise_def resolve_def response_def js_or_def
        one_non_null_def field_def initial_session_def)

section \<open>Normalisation of inbound messages\<close>

lemma cleanResponse_returns:
  "\<not> shadows x \<Longrightarrow> \<exists>y. cleanResponse x = Inr y"
  by (cases x) (simp_all add: shadows_def split: option.splits)

lemma cleanResponse_no_shadow:
  "\<not> shadows x \<Longrightarrow> cleanResponse x = Inr (projr (cleanResponse x))"
  using cleanResponse_returns [of x] by auto

lemma clean_each_no_shadow:
  "list_all (\<lambda>x. \<not> shadows x) xs \<Longrightarrow>
     clean_each xs = Inr (map (\<lambda>x. projr (cleanResponse x)) xs)"
proof (induction xs)
  case Nil
  then show ?case by simp
next
  case (Cons x xs)
  then have "\<not> shadows x" by simp
  then obtain y where y: "cleanResponse x = Inr y"
    using cleanResponse_returns by blast
  from Cons have "clean_each xs = Inr (map (\<lambda>x. projr (cleanResponse x)) xs)"
    by simp
  with y show ?case by simp
qed

lemma cleanResponse_both:
  assumes "map_of kvs ''error'' = Some e" and "map_of kvs ''result'' = Some r"
    and "map_of kvs ''hasOwnProperty'' = None"
  shows "cleanResponse (DObj kvs) =
     Inr (DObj (if truthy_data e then AList.delete ''result'' kvs
                else AList.delete ''error'' kvs))"
proof -
  from assms(1) have "''error'' \<in> set (map fst kvs)"
    by (metis map_of_eq_None_iff option.distinct(1) set_map)
  moreover from assms(2) have "''result'' \<in> set (map fst kvs)"
    by (metis map_of_eq_None_iff option.distinct(1) set_map)
  ultimately show ?thesis using assms by simp
qed

text \<open>
  C4, amended.  For every inbound decoded message (a single object, or an element of
  an array none of whose elements has an own property \<^verbatim>\<open>hasOwnProperty\<close>) that
  carries both a \<^verbatim>\<open>result\<close> key and an \<^verbatim>\<open>error\<close> key and has no own property
  \<^verbatim>\<open>hasOwnProperty\<close>, the message handed to the RPC engine keeps \<^verbatim>\<open>error\<close> and
  drops \<^verbatim>\<open>result\<close> when the value under \<^verbatim>\<open>error\<close> is truthy, and keeps
  \<^verbatim>\<open>result\<close> and drops \<^verbatim>\<open>error\<close> when that value is falsy (\<^verbatim>\<open>null\<close>,
  \<^verbatim>\<open>false\<close>, \<^verbatim>\<open>0\<close>, \<^verbatim>\<open>''\<close>).
\<close>

theorem error_wins_when_truthy:
  assumes e: "map_of kvs ''error'' = Some e" and r: "map_of kvs ''result'' = Some r"
    and h: "map_of kvs ''hasOwnProperty'' = None"
  shows "onTransportData (DObj kvs) =
           Inr (DObj (if truthy_data e then AList.delete ''result'' kvs
                      else AList.delete ''error'' kvs))
       \<and> (truthy_data e \<longrightarrow>
            property ''error'' (DObj (AList.delete ''result'' kvs)) = Some e
          \<and> property ''result'' (DObj (AList.delete ''result'' kvs)) = None)
       \<and> (\<not> truthy_data e \<longrightarrow>
            property ''result'' (DObj (AList.delete ''error'' kvs)) = Some r
          \<and> property ''error'' (DObj (AList.delete ''error'' kvs)) = None)
       \<and> (\<forall>xs i. list_all (\<lambda>x. \<not> shadows x) xs \<and> i < length xs \<and> xs ! i = DObj kvs \<longrightarrow>
            (\<exists>ys. onTransportData (DArr xs) = Inr (DArr ys) \<and> length ys = length xs
               \<and> ys ! i = DObj (if truthy_data e then AList.delete ''result'' kvs
                               else AList.delete ''error'' kvs)))"
proof -
  have c: "cleanResponse (DObj kvs) =
     Inr (DObj (if truthy_data e then AList.delete ''result'' kvs
                else AList.delete ''error'' kvs))"
    using e r h by (rule cleanResponse_both)
  have one: "onTransportData (DObj kvs) =
           Inr (DObj (if truthy_data e then AList.delete ''result'' kvs
                      else AList.delete ''error'' kvs))"
    unfolding onTransportData_def using c by simp
  have props: "property ''error'' (DObj (AList.delete ''result'' kvs)) = Some e"
    "property ''result'' (DObj (AList.delete ''result'' kvs)) = None"
    "property ''result'' (DObj (AList.delete ''error'' kvs)) = Some r"
    "property ''error'' (DObj (AList.delete ''error'' kvs)) = None"
    using e r by (simp_all add: property_def delete_conv')
  have arr: "\<exists>ys. onTransportData (DArr xs) = Inr (DArr ys) \<and> length ys = length xs
               \<and> ys ! i = DObj (if truthy_data e then AList.delete ''result'' kvs
                               else AList.delete ''error'' kvs)"
    if "list_all (\<lambda>x. \<not> shadows x) xs" and "i < length xs" and "xs ! i = DObj kvs"
    for xs i
  proof -
    from that(1) have "clean_each xs = Inr (map (\<lambda>x. projr (cleanResponse x)) xs)"
      by (rule clean_each_no_shadow)
    then have "onTransportData (DArr xs) = Inr (DArr (map (\<lambda>x. projr (cleanResponse x)) xs))"
      by (simp add: onTransportData_def)
    moreover have "map (\<lambda>x. projr (cleanResponse x)) xs ! i =
        DObj (if truthy_data e then AList.delete ''result'' kvs
              else AList.delete ''error'' kvs)"
      using that(2,3) c by simp
    ultimately show ?thesis by simp
  qed
  from one props arr show ?thesis by blast
qed

text \<open>An error object wins over a \<^verbatim>\<open>null\<close> result; the error \<^verbatim>\<open>false\<close> loses to
  the result 7, alone and as the second element of an array.\<close>

theorem error_wins_when_truthy_witness:
  "onTransportData (DObj [(''id'', DNum 1), (''result'', DNull),
      (''error'', DObj [(''code'', DNum 1234), (''message'', DStr ''Generic RPC error'')])])
     = Inr (DObj [(''id'', DNum 1),
      (''error'', DObj [(''code'', DNum 1234), (''message'', DStr ''Generic RPC error'')])])
   \<and> onTransportData (DObj [(''id'', DNum 2), (''result'', DNum 7), (''error'', DBool False)])
     = Inr (DObj [(''id'', DNum 2), (''result'', DNum 7)])
   \<and> (\<exists>ys. onTransportData (DArr [DNum 3,
          DObj [(''id'', DNum 2), (''result'', DNum 7), (''error'', DBool False)]])
          = Inr (DArr ys) \<and> length ys = 2
          \<and> ys ! 1 = DObj [(''id'', DNum 2), (''result'', DNum 7)])"
proof -
  let ?k1 = "[(''id'', DNum 1), (''result'', DNull),
      (''error'', DObj [(''code'', DNum 1234), (''message'', DStr ''Generic RPC error'')])]"
  let ?k2 = "[(''id'', DNum 2), (''result'', DNum 7), (''error'', DBool False)]"
  have a: "map_of ?k1 ''error'' =
      Some (DObj [(''code'', DNum 1234), (''message'', DStr ''Generic RPC error'')])"
    "map_of ?k1 ''result'' = Some DNull" "map_of ?k1 ''hasOwnProperty'' = None"
    by simp_all
  have b: "map_of ?k2 ''error'' = Some (DBool False)"
    "map_of ?k2 ''result'' = Some (DNum 7)" "map_of ?k2 ''hasOwnProperty'' = None"
    by simp_all
  have l: "list_all (\<lambda>x. \<not> shadows x) [DNum 3, DObj ?k2]"
    by (simp add: shadows_def)
  from error_wins_when_truthy [OF a] have 1: "onTransportData (DObj ?k1) =
      Inr (DObj (AList.delete ''result'' ?k1))" by simp
  from error_wins_when_truthy [OF b] have 2: "onTransportData (DObj ?k2) =
      Inr (DObj (AList.delete ''error'' ?k2))" by simp
  have "\<forall>xs i. list_all (\<lambda>x. \<not> shadows x) xs \<and> i < length xs \<and> xs ! i = DObj ?k2 \<longrightarrow>
            (\<exists>ys. onTransportData (DArr xs) = Inr (DArr ys) \<and> length ys = length xs
               \<and> ys ! i = DObj (AList.delete ''error'' ?k2))"
    using error_wins_when_truthy [OF b] by simp
  from this [rule_format, of "[DNum 3, DObj ?k2]" 1] l have 3:
    "\<exists>ys. onTransportData (DArr [DNum 3, DObj ?k2]) = Inr (DArr ys) \<and> length ys = 2
          \<and> ys ! 1 = DObj (AList.delete ''error'' ?k2)"
    by (simp add: numeral_2_eq_2)
  from 1 2 3 show ?thesis by (simp add: AList.delete_eq)
qed

text \<open>The claim as stated fails at a message with \<^verbatim>\<open>error: null\<close>: the result is
  kept and the error is dropped.\<close>

theorem error_null_keeps_result_counterexample:
  "onTransportData (DObj [(''jsonrpc'', DStr ''2.0''), (''id'', DNum 1),
       (''result'', DStr ''WyJwYXJhbXMiXQ==''), (''error'', DNull)])
     = Inr (DObj [(''jsonrpc'', DStr ''2.0''), (''id'', DNum 1),
       (''result'', DStr ''WyJwYXJhbXMiXQ=='')])"
  by (simp add: onTransportData_def AList.delete_eq)

section \<open>Connecting and disconnecting\<close>

text \<open>
  C8.  \<^verbatim>\<open>connect()\<close> resolves at once, calling no method of the transport and
  leaving the session as it is, when the transport is connectionless or already
  connected; so does \<^verbatim>\<open>disconnect()\<close> when the transport is connectionless or
  already disconnected.  In every other state \<^verbatim>\<open>connect()\<close> calls the transport's
  \<^verbatim>\<open>connect\<close>, and \<^verbatim>\<open>disconnect()\<close> the transport's \<^verbatim>\<open>disconnect\<close>, once,
  and the promise returned settles as the transport's does: a failure is passed on
  unchanged.
\<close>

theorem connect_disconnect_noop_or_delegate:
  "(\<not> t_needsConnection T \<or> t_isConnected T (transport s) \<longrightarrow>
      connect T s = (Resolved JUndefined, s))
   \<and> (\<not> t_needsConnection T \<or> \<not> t_isConnected T (transport s) \<longrightarrow>
      disconnect T s = (Resolved JUndefined, s))
   \<and> (t_needsConnection T \<and> \<not> t_isConnected T (transport s) \<longrightarrow>
      connect T s =
        (fst (t_connect T (transport s)),
         s\<lparr>transport := snd (t_connect T (transport s)), trace := trace s @ [Connect]\<rparr>))
   \<and> (t_needsConnection T \<and> t_isConnected T (transport s) \<longrightarrow>
      disconnect T s =
        (fst (t_disconnect T (transport s)),
         s\<lparr>transport := snd (t_disconnect T (transport s)),
           trace := trace s @ [Disconnect]\<rparr>))"
  by (auto simp: connect_def disconnect_def split: prod.splits)

text \<open>On the transport of the tests: connecting when connected and disconnecting when
  disconnected do nothing, the other two calls reach the transport; a refused
  connection is passed on.\<close>

theorem connect_disconnect_noop_or_delegate_witness:
  "connect ConnectedTransport (initial_session 0 True 60 True True)
     = (Resolved JUndefined, initial_session 0 True 60 True True)
   \<and> disconnect ConnectedTransport (initial_session 0 False 60 True True)
     = (Resolved JUndefined, initial_session 0 False 60 True True)
   \<and> connect ConnectedTransport (initial_session 0 False 60 True True)
     = (Resolved JUndefined, (initial_session 0 True 60 True True)\<lparr>trace := [Connect]\<rparr>)
   \<and> disconnect ConnectedTransport (initial_session 0 True 60 True True)
     = (Resolved JUndefined, (initial_session 0 False 60 True True)\<lparr>trace := [Disconnect]\<rparr>)
   \<and> connect refusing (initial_session 0 False 60 True True)
     = (Rejected (JErr (Error ''ECONNREFUSED'')),
        (initial_session 0 False 60 True True)\<lparr>trace := [Connect]\<rparr>)"
  using connect_disconnect_noop_or_delegate
      [of ConnectedTransport "initial_session 0 True 60 True True"]
    connect_disconnect_noop_or_delegate
      [of ConnectedTransport "initial_session 0 False 60 True True"]
    connect_disconnect_noop_or_delegate
      [of refusing "initial_session 0 False 60 True True"]
  by (simp add: ConnectedTransport_def refusing_def initial_session_def)

section \<open>Prepared calls\<close>




section \<open>Validation of a batch\<close>




section \<open>Calls on a session that is not connected\<close>




section \<open>Notification handlers\<close>

text \<open>
  For a name other than \<^verbatim>\<open>hasOwnProperty\<close> (and other than \<^verbatim>\<open>__proto__\<close>, which
  JavaScript does not store as an own property and the model does not treat), on a
  session where no handler is registered under \<^verbatim>\<open>hasOwnProperty\<close>: a second
  handler replaces the first, a non-function removes the registration, and removing
  where nothing is registered changes nothing.
\<close>

lemma notification_ordinary_names:
  assumes "map_of (exposed (remote s)) ''hasOwnProperty'' = None"
    and "n \<noteq> ''hasOwnProperty''" and "n \<noteq> ''__proto__''"
    and "check_function h1" and "check_function h2" and "\<not> check_function x"
  shows "invoked (deliver_notification n ps
           (snd (notification n h2 (snd (notification n h1 s))))) = invoked s @ [(h2, ps)]"
    and "fst (notification n x (snd (notification n h1 s))) = None"
    and "invoked (deliver_notification n ps
           (snd (notification n x (snd (notification n h1 s))))) = invoked s"
    and "n \<notin> set (map fst (exposed (remote s))) \<Longrightarrow> notification n x s = (None, s)"
proof -
  have k: "map_of (AList.update n h1 (exposed (remote s))) ''hasOwnProperty'' = None"
    using assms(1,2) by (simp add: update_conv')
  have d: "map_of (AList.delete n (AList.update n h1 (exposed (remote s)))) n = None"
    by (simp add: delete_conv')
  show "invoked (deliver_notification n ps
           (snd (notification n h2 (snd (notification n h1 s))))) = invoked s @ [(h2, ps)]"
    using assms(4,5)
    by (simp add: notification_def expose_def deliver_notification_def update_conv')
  show "fst (notification n x (snd (notification n h1 s))) = None"
    using assms(4,6) k by (simp add: notification_def expose_def)
  show "invoked (deliver_notification n ps
           (snd (notification n x (snd (notification n h1 s))))) = invoked s"
  proof -
    have "map_of (AList.update n h1 (exposed (remote s))) n = Some h1"
      by (simp add: update_conv')
    then have "n \<in> dom (map_of (AList.update n h1 (exposed (remote s))))"
      by (rule domI)
    then have m: "n \<in> fst ` set (AList.update n h1 (exposed (remote s)))"
      by (simp only: dom_map_of_conv_image_fst)
    show ?thesis
      using assms(4,6) k d m
      by (simp add: notification_def expose_def deliver_notification_def)
  qed
  show "n \<notin> set (map fst (exposed (remote s))) \<Longrightarrow> notification n x s = (None, s)"
    using assms(1,6) by (simp add: notification_def)
qed

text \<open>
  C9.  The claim holds of the names above and fails in the code at the name
  \<^verbatim>\<open>hasOwnProperty\<close>: with a handler registered under it,
  \<^verbatim>\<open>notification('hasOwnProperty', null)\<close> calls the handler (with the name as its
  argument), throws a \<^verbatim>\<open>TypeError\<close> and leaves the registration in place, so that
  the next \<^verbatim>\<open>hasOwnProperty\<close> notification reaches the handler again.
\<close>

theorem notification_hasOwnProperty_survives_removal:
  "fst (notification ''hasOwnProperty'' JNull
          (snd (notification ''hasOwnProperty'' (JFunc 1) (initial_session 0 () 60 True True))))
     = Some (TypeError msg_next)
   \<and> calls_of (JFunc 1)
        (deliver_notification ''hasOwnProperty'' (JArr [JStr ''hello''])
          (snd (notification ''hasOwnProperty'' JNull
            (snd (notification ''hasOwnProperty'' (JFunc 1)
               (initial_session 0 () 60 True True))))))
     = [JStr ''hasOwnProperty'', JArr [JStr ''hello'']]"
  by (simp add: notification_def expose_def deliver_notification_def calls_of_def
        initial_session_def new_JRPC_def check_function_def)

end
